theory Spec2Isabelle
  imports Main
begin

section \<open>Python text\<close>

text \<open>
  A Python \<open>str\<close> is a sequence of Unicode code points, and \<open>len\<close>, \<open>strip\<close>, the
  regular expressions and \<open>==\<close> all work on code points. A string is therefore a list of
  code points (natural numbers); \<open>asc\<close> embeds an ASCII literal. The code points of the
  accented vowels are written out where the source has them.
\<close>

type_synonym pystr = "nat list"

definition asc :: "string \<Rightarrow> pystr" where
  "asc s = map of_char s"

text \<open>
  \<open>str.isspace\<close> on one character, which is also what \<open>str.strip()\<close> removes and what
  \<open>\s\<close> matches in a \<open>str\<close> pattern: U+0009..U+000D, U+001C..U+0020, U+0085, U+00A0,
  U+1680, U+2000..U+200A, U+2028, U+2029, U+202F, U+205F, U+3000.
\<close>

definition isspace :: "nat \<Rightarrow> bool" where
  "isspace c =
     ((9 \<le> c \<and> c \<le> 13) \<or> (28 \<le> c \<and> c \<le> 32) \<or> c = 133 \<or> c = 160 \<or> c = 5760 \<or>
      (8192 \<le> c \<and> c \<le> 8202) \<or> c = 8232 \<or> c = 8233 \<or> c = 8239 \<or> c = 8287 \<or>
      c = 12288)"

definition strip :: "pystr \<Rightarrow> pystr" where
  "strip s = rev (dropWhile isspace (rev (dropWhile isspace s)))"

text \<open>
  \<open>str.lower()\<close>. The only call is \<open>parola.lower()\<close> in \<open>index\<close>, after
  \<open>is_valid_word(parola)\<close> has passed, so every character it meets is an ASCII letter,
  one of the twenty accented vowels of the pattern, or whitespace. On these (and on all of
  Latin-1) lowercasing is character by character: the capitals A..Z and U+00C0..U+00DE
  (but the sign U+00D7) move up by 32, everything else stays.
\<close>

definition lower_char :: "nat \<Rightarrow> nat" where
  "lower_char c =
     (if 65 \<le> c \<and> c \<le> 90 then c + 32
      else if 192 \<le> c \<and> c \<le> 222 \<and> c \<noteq> 215 then c + 32
      else c)"

definition lower :: "pystr \<Rightarrow> pystr" where
  "lower s = map lower_char s"

section \<open>Validation functions\<close>

text \<open>
  \<^verbatim>\<open>re.match(r'^[a-zA-Z<20 accented vowels>\s]+$', word.strip())\<close>.
  The character class, in the order of the pattern: \<open>a-z\<close>, \<open>A-Z\<close>, the lower-case
  vowels U+00E0 E1 E8 E9 EC ED F2 F3 F9 FA, their capitals U+00C0 C1 C8 C9 CC CD D2 D3 D9 DA,
  and \<open>\s\<close>.
\<close>

definition word_class :: "nat \<Rightarrow> bool" where
  "word_class c =
     ((97 \<le> c \<and> c \<le> 122) \<or> (65 \<le> c \<and> c \<le> 90) \<or>
      c \<in> set [224, 225, 232, 233, 236, 237, 242, 243, 249, 250] \<or>
      c \<in> set [192, 193, 200, 201, 204, 205, 210, 211, 217, 218] \<or>
      isspace c)"

text \<open>
  Without \<open>re.MULTILINE\<close>, \<open>$\<close> matches at the end of the string and also just before a
  newline that ends the string.
\<close>

definition at_dollar :: "pystr \<Rightarrow> bool" where
  "at_dollar rest = (rest = [] \<or> rest = [10])"

text \<open>
  \<open>^[cls]+$\<close> from the start of the string: one character of the class, then either more
  of them or the \<open>$\<close> position (the greedy \<open>+\<close> backtracks, so a match exists when some
  number of repetitions ends at a \<open>$\<close> position).
\<close>

fun match_plus_dollar :: "(nat \<Rightarrow> bool) \<Rightarrow> pystr \<Rightarrow> bool" where
  "match_plus_dollar cls [] = False"
| "match_plus_dollar cls (c # cs) = (cls c \<and> (match_plus_dollar cls cs \<or> at_dollar cs))"

definition is_valid_word :: "pystr \<Rightarrow> bool" where
  "is_valid_word word = match_plus_dollar word_class (strip word)"

definition is_valid_clue :: "pystr \<Rightarrow> bool" where
  "is_valid_clue clue = (10 \<le> length (strip clue))"

text \<open>
  The vocabulary of the specification for words: a Latin letter is an ASCII letter or one
  of the accented vowels it lists, in either case; digits and punctuation are the ASCII
  ones.
\<close>

definition latin_letter :: "nat \<Rightarrow> bool" where
  "latin_letter c =
     ((65 \<le> c \<and> c \<le> 90) \<or> (97 \<le> c \<and> c \<le> 122) \<or>
      c \<in> {224, 225, 232, 233, 236, 237, 242, 243, 249, 250} \<or>
      c \<in> {192, 193, 200, 201, 204, 205, 210, 211, 217, 218})"

definition ascii_digit :: "nat \<Rightarrow> bool" where
  "ascii_digit c = (48 \<le> c \<and> c \<le> 57)"

definition ascii_punct :: "nat \<Rightarrow> bool" where
  "ascii_punct c =
     ((33 \<le> c \<and> c \<le> 47) \<or> (58 \<le> c \<and> c \<le> 64) \<or> (91 \<le> c \<and> c \<le> 96) \<or>
      (123 \<le> c \<and> c \<le> 126))"

text \<open>
  The word rule as the specification words it: after trimming, every character is a Latin
  letter or a space.
\<close>

definition spec_word_rule :: "pystr \<Rightarrow> bool" where
  "spec_word_rule w = (\<forall>c\<in>set (strip w). latin_letter c \<or> c = 32)"

section \<open>Configuration and the sanitizer\<close>

text \<open>
  The process environment (after \<open>load_dotenv()\<close>) and the one library function whose
  result the handlers compare and store: \<^verbatim>\<open>bleach.clean(text, tags=[], attributes={}, strip=True)\<close>.
  The library is not part of the repository, so its function is a parameter of the model:
  every theorem below that mentions an arbitrary \<open>e\<close> holds whatever that function is.
\<close>

record env =
  environ :: "string \<rightharpoonup> pystr"
  bleach_clean :: "pystr \<Rightarrow> pystr"

definition getenv :: "env \<Rightarrow> string \<Rightarrow> pystr \<Rightarrow> pystr" where
  "getenv e key dflt = (case environ e key of None \<Rightarrow> dflt | Some v \<Rightarrow> v)"

definition get_form_password :: "env \<Rightarrow> pystr" where
  "get_form_password e = getenv e ''FORM_PASSWORD'' (asc ''bianca'')"

definition get_admin_password :: "env \<Rightarrow> pystr" where
  "get_admin_password e = getenv e ''ADMIN_PASSWORD'' (asc ''bianca2024'')"

text \<open>
  \<open>sanitize_input\<close>: a falsy text is returned as it is; any other text is trimmed and
  handed to the library. (The handlers call it on validated form data, which is never
  \<open>None\<close>.)
\<close>

definition sanitize_input :: "env \<Rightarrow> pystr \<Rightarrow> pystr" where
  "sanitize_input e text = (if text = [] then text else bleach_clean e (strip text))"

text \<open>The tag delimiters \<open><\<close> and \<open>>\<close>.\<close>

definition tag_delimiter :: "nat \<Rightarrow> bool" where
  "tag_delimiter c = (c = 60 \<or> c = 62)"

section \<open>The submissions table\<close>

text \<open>
  One row of \<open>submissions\<close>: \<open>id INTEGER PRIMARY KEY AUTOINCREMENT\<close>,
  \<open>parola TEXT NOT NULL\<close>, \<open>frase_indizio TEXT NOT NULL\<close>, \<open>nome TEXT\<close> (nullable),
  \<open>timestamp DATETIME DEFAULT CURRENT_TIMESTAMP\<close> (the reading of the store's clock, in
  seconds). The store is the table in rowid order together with the counter that
  \<open>AUTOINCREMENT\<close> keeps in \<open>sqlite_sequence\<close>.
\<close>

record submission =
  row_id :: int
  parola :: pystr
  frase_indizio :: pystr
  nome :: "pystr option"
  timestamp :: nat

record store =
  submissions :: "submission list"
  sequence :: int

datatype exn = HTTPException nat | OverflowError | OperationalError

text \<open>The largest rowid, and so the largest integer SQLite stores or accepts as a parameter.\<close>

definition max_rowid :: int where
  "max_rowid = 9223372036854775807"

text \<open>\<open>init_db\<close> on a fresh database file: the empty table.\<close>

definition init_db :: store where
  "init_db = \<lparr>submissions = [], sequence = 0\<rparr>"

text \<open>
  The largest rowid the table holds or has ever handed out. \<open>AUTOINCREMENT\<close> gives the
  next row one more than that, and fails with "database or disk is full" once the largest
  rowid has been used.
\<close>

definition top_rowid :: "store \<Rightarrow> int" where
  "top_rowid st = fold max (map row_id (submissions st)) (sequence st)"

text \<open>
  \<^verbatim>\<open>INSERT INTO submissions (parola, frase_indizio, nome) VALUES (?, ?, ?)\<close> and the commit.
\<close>

definition insert_submission :: "pystr \<Rightarrow> pystr \<Rightarrow> pystr \<Rightarrow> nat \<Rightarrow> store \<Rightarrow> exn + store" where
  "insert_submission w clue name now st =
     (if max_rowid \<le> top_rowid st then Inl OperationalError
      else Inr \<lparr>submissions = submissions st @
                   [\<lparr>row_id = top_rowid st + 1, parola = w, frase_indizio = clue,
                     nome = Some name, timestamp = now\<rparr>],
                 sequence = top_rowid st + 1\<rparr>)"

text \<open>
  \<^verbatim>\<open>SELECT * FROM submissions WHERE parola = ? AND frase_indizio = ?\<close> with \<open>fetchone()\<close>:
  the default collation compares text exactly.
\<close>

definition select_by_parola_frase :: "store \<Rightarrow> pystr \<Rightarrow> pystr \<Rightarrow> submission option" where
  "select_by_parola_frase st w clue =
     find (\<lambda>r. parola r = w \<and> frase_indizio r = clue) (submissions st)"

text \<open>
  An integer parameter is bound as a 64-bit value. For a Python \<open>int\<close> outside that range
  the \<open>sqlite3\<close> driver raises \<open>OverflowError\<close> ("Python int too large to convert to
  SQLite INTEGER") when the statement is executed. The route's \<open>int\<close> converter accepts any
  run of digits, so such an id does reach the view.
\<close>

definition fits_sqlite_integer :: "int \<Rightarrow> bool" where
  "fits_sqlite_integer i = (- max_rowid - 1 \<le> i \<and> i \<le> max_rowid)"

text \<open>\<^verbatim>\<open>SELECT id FROM submissions WHERE id = ?\<close> with \<open>fetchone()\<close>.\<close>

definition select_by_id :: "store \<Rightarrow> int \<Rightarrow> exn + submission option" where
  "select_by_id st i =
     (if fits_sqlite_integer i then Inr (find (\<lambda>r. row_id r = i) (submissions st))
      else Inl OverflowError)"

text \<open>\<^verbatim>\<open>DELETE FROM submissions WHERE id = ?\<close> and the commit.\<close>

definition delete_by_id :: "store \<Rightarrow> int \<Rightarrow> store" where
  "delete_by_id st i = st\<lparr>submissions := filter (\<lambda>r. row_id r \<noteq> i) (submissions st)\<rparr>"

text \<open>
  \<^verbatim>\<open>ORDER BY timestamp DESC\<close>: later timestamps first. SQL leaves the order of rows with
  equal timestamps open; SQLite returns them in table order, and so does the model (the
  sort is stable). No theorem depends on that order.
\<close>

definition newest_first :: "submission list \<Rightarrow> submission list" where
  "newest_first rs = sort_key (\<lambda>r. - int (timestamp r)) rs"

section \<open>Requests, sessions and responses\<close>

datatype http_method = GET | POST

text \<open>\<open>request.form\<close>: each field name with its first value.\<close>

record request =
  request_method :: http_method
  form :: "string \<rightharpoonup> pystr"

text \<open>
  The session holds the two flags (a missing key reads as false under \<open>session.get\<close>) and
  \<open>session.permanent\<close>.
\<close>

record session =
  form_access :: bool
  admin_logged_in :: bool
  permanent :: bool

datatype endpoint = Index | Admin

datatype cell = Text pystr | Stamp nat

text \<open>
  What a view returns: a redirect to \<open>url_for(endpoint)\<close>, one of the rendered templates
  (the login templates with the validation errors of their password field, the success
  template with its \<open>nome\<close>, the dashboard with its rows), the rows handed to
  \<open>csv.writer\<close>, \<open>abort(code)\<close>, or the 500 of an exception no handler catches.
\<close>

datatype response =
    Redirect endpoint
  | Form_login_html "pystr list"
  | Index_html
  | Success_html pystr
  | Admin_login_html "pystr list"
  | Admin_html "submission list"
  | Csv "cell list list"
  | Abort nat
  | Server_error

fun status_code :: "response \<Rightarrow> nat" where
  "status_code (Redirect ep) = 302"
| "status_code (Abort code) = code"
| "status_code Server_error = 500"
| "status_code page = 200"

fun is_redirect :: "response \<Rightarrow> bool" where
  "is_redirect (Redirect ep) = True"
| "is_redirect r = False"

text \<open>
  The result of a view: the response, the messages it passed to \<open>flash\<close> (message and
  category, in order), the session and the store it leaves.
\<close>

record outcome =
  resp :: response
  flashed :: "(pystr \<times> string) list"
  sess :: session
  db :: store

section \<open>Forms\<close>

text \<open>
  \<open>DataRequired\<close> accepts a field whose data is a string that is not empty and not only
  whitespace; on failure it stops the field's chain with its message. \<open>Length(min, max)\<close>
  then compares \<open>len(field.data)\<close>, the untrimmed, unsanitized data. A field that the request
  does not carry has no data.
\<close>

fun data_required :: "pystr option \<Rightarrow> bool" where
  "data_required None = False"
| "data_required (Some s) = (s \<noteq> [] \<and> strip s \<noteq> [])"

fun length_between :: "nat \<Rightarrow> nat \<Rightarrow> pystr option \<Rightarrow> bool" where
  "length_between lo hi None = (lo \<le> 0)"
| "length_between lo hi (Some s) = (lo \<le> length s \<and> length s \<le> hi)"

definition field_errors ::
    "pystr \<Rightarrow> nat \<Rightarrow> nat \<Rightarrow> pystr \<Rightarrow> pystr option \<Rightarrow> pystr list" where
  "field_errors required lo hi between d =
     (if \<not> data_required d then [required]
      else if \<not> length_between lo hi d then [between]
      else [])"

definition required_default :: pystr where
  "required_default = asc ''This field is required.''"

definition parola_required :: pystr where
  "parola_required = asc ''La parola '' @ [232] @ asc '' obbligatoria''"

definition parola_length :: pystr where
  "parola_length = asc ''La parola deve essere tra 1 e 50 caratteri''"

definition frase_required :: pystr where
  "frase_required = asc ''La frase indizio '' @ [232] @ asc '' obbligatoria''"

definition frase_length :: pystr where
  "frase_length = asc ''La frase indizio deve essere tra 10 e 200 caratteri''"

definition nome_required :: pystr where
  "nome_required = asc ''Il nome '' @ [232] @ asc '' obbligatorio''"

definition nome_length :: pystr where
  "nome_length = asc ''Il nome deve essere tra 1 e 50 caratteri''"

text \<open>
  \<open>ContributionForm\<close>: the errors of \<open>form.validate_on_submit()\<close> on a POST, field by field
  in the order of the class; the form validates when there are none. (The CSRF token is
  checked by \<open>CSRFProtect\<close> before any view runs; the views are modelled from there on, and
  so is the rate limiter.)
\<close>

definition ContributionForm_errors :: "(string \<rightharpoonup> pystr) \<Rightarrow> pystr list" where
  "ContributionForm_errors fd =
     field_errors parola_required 1 50 parola_length (fd ''parola'') @
     field_errors frase_required 10 200 frase_length (fd ''frase_indizio'') @
     field_errors nome_required 1 50 nome_length (fd ''nome'')"

section \<open>The views\<close>

definition form_password_wrong :: pystr where
  "form_password_wrong = asc ''Password errata. Chiedi la password agli organizzatori!''"

definition word_not_letters :: pystr where
  "word_not_letters = asc ''La parola pu'' @ [242] @ asc '' contenere solo lettere e spazi''"

definition clue_too_short :: pystr where
  "clue_too_short = asc ''La frase indizio deve essere di almeno 10 caratteri''"

definition already_registered :: pystr where
  "already_registered =
     asc ''Questo contributo '' @ [232] @ asc '' gi'' @ [224] @ asc '' stato registrato''"

definition thanks :: pystr where
  "thanks = asc ''Grazie! Il tuo contributo '' @ [232] @ asc '' stato registrato.''"

definition admin_password_wrong :: pystr where
  "admin_password_wrong = asc ''Password errata''"

definition not_found :: pystr where
  "not_found = asc ''Contributo non trovato''"

definition deleted :: pystr where
  "deleted = asc ''Contributo eliminato''"

definition delete_failed :: pystr where
  "delete_failed = asc ''Errore durante l'' @ [39] @ asc ''eliminazione''"

definition logged_out :: pystr where
  "logged_out = asc ''Sei stato disconnesso''"

definition anonimo :: pystr where
  "anonimo = asc ''Anonimo''"

text \<open>
  The end of \<open>index\<close>, reached by a GET and by a POST whose contribution form did not
  validate: the login template without the contributor gate, the form template with it.
\<close>

definition index_page :: "session \<Rightarrow> response" where
  "index_page s = (if \<not> form_access s then Form_login_html [] else Index_html)"

text \<open>
  The contribution branch of \<open>index\<close>, after \<open>form.validate_on_submit()\<close> has succeeded
  on the data \<open>p\<close>, \<open>f\<close>, \<open>n\<close> of the three fields. \<open>now\<close> is the store's clock at the insert.
  The insert is not inside a \<open>try\<close>, so its exception is a 500.
\<close>

definition store_contribution ::
    "env \<Rightarrow> pystr \<Rightarrow> pystr \<Rightarrow> pystr \<Rightarrow> session \<Rightarrow> store \<Rightarrow> nat \<Rightarrow> outcome" where
  "store_contribution e p f n s st now =
     (let word = sanitize_input e p;
          clue = sanitize_input e f;
          name = sanitize_input e n
      in if \<not> is_valid_word word then
           \<lparr>resp = Index_html, flashed = [(word_not_letters, ''error'')], sess = s, db = st\<rparr>
         else if \<not> is_valid_clue clue then
           \<lparr>resp = Index_html, flashed = [(clue_too_short, ''error'')], sess = s, db = st\<rparr>
         else
           (case select_by_parola_frase st (lower word) clue of
              Some existing \<Rightarrow>
                \<lparr>resp = Index_html, flashed = [(already_registered, ''error'')], sess = s,
                  db = st\<rparr>
            | None \<Rightarrow>
                (case insert_submission (lower word) clue name now st of
                   Inl x \<Rightarrow> \<lparr>resp = Server_error, flashed = [], sess = s, db = st\<rparr>
                 | Inr st' \<Rightarrow>
                     \<lparr>resp = Success_html name, flashed = [(thanks, ''success'')], sess = s,
                       db = st'\<rparr>)))"

text \<open>
  \<open>index\<close>, the view of \<open>/\<close>. A POST that carries \<open>access_password\<close> is a login attempt,
  whatever else it carries; any other POST needs the contributor gate and is a
  contribution.
\<close>

definition index :: "env \<Rightarrow> request \<Rightarrow> session \<Rightarrow> store \<Rightarrow> nat \<Rightarrow> outcome" where
  "index e rq s st now =
     (if request_method rq = POST then
        (case form rq ''access_password'' of
           Some pw \<Rightarrow>
             if data_required (Some pw) then
               (let password = sanitize_input e pw
                in if password = get_form_password e then
                     \<lparr>resp = Redirect Index, flashed = [],
                       sess = s\<lparr>form_access := True, permanent := True\<rparr>, db = st\<rparr>
                   else
                     \<lparr>resp = Form_login_html [],
                       flashed = [(form_password_wrong, ''error'')], sess = s, db = st\<rparr>)
             else
               \<lparr>resp = Form_login_html [required_default], flashed = [], sess = s, db = st\<rparr>
         | None \<Rightarrow>
             if \<not> form_access s then
               \<lparr>resp = Redirect Index, flashed = [], sess = s, db = st\<rparr>
             else if ContributionForm_errors (form rq) = [] then
               (case (form rq ''parola'', form rq ''frase_indizio'', form rq ''nome'') of
                  (Some p, Some f, Some n) \<Rightarrow> store_contribution e p f n s st now
                | _ \<Rightarrow> \<lparr>resp = Server_error, flashed = [], sess = s, db = st\<rparr>)
             else
               \<lparr>resp = index_page s,
                 flashed = map (\<lambda>m. (m, ''error'')) (ContributionForm_errors (form rq)),
                 sess = s, db = st\<rparr>)
      else \<lparr>resp = index_page s, flashed = [], sess = s, db = st\<rparr>)"

text \<open>\<open>admin\<close>, the view of \<open>/admin\<close>: every POST is a login attempt.\<close>

definition admin :: "env \<Rightarrow> request \<Rightarrow> session \<Rightarrow> store \<Rightarrow> outcome" where
  "admin e rq s st =
     (if request_method rq = POST then
        (if data_required (form rq ''password'') then
           (case form rq ''password'' of
              Some pw \<Rightarrow>
                (let password = sanitize_input e pw
                 in if password = get_admin_password e then
                      \<lparr>resp = Redirect Admin, flashed = [],
                        sess = s\<lparr>admin_logged_in := True, permanent := True\<rparr>, db = st\<rparr>
                    else
                      \<lparr>resp = Admin_login_html [],
                        flashed = [(admin_password_wrong, ''error'')], sess = s, db = st\<rparr>)
            | None \<Rightarrow>
                \<lparr>resp = Admin_login_html [required_default], flashed = [], sess = s,
                  db = st\<rparr>)
         else
           \<lparr>resp = Admin_login_html [required_default], flashed = [], sess = s, db = st\<rparr>)
      else if \<not> admin_logged_in s then
        \<lparr>resp = Admin_login_html [], flashed = [], sess = s, db = st\<rparr>
      else
        \<lparr>resp = Admin_html (newest_first (submissions st)), flashed = [], sess = s,
          db = st\<rparr>)"

text \<open>
  \<open>export_csv\<close>, the view of \<open>/admin/export\<close>: the header and one line for each row,
  \<^verbatim>\<open>submission['nome'] or 'Anonimo'\<close> in the third column (\<open>None\<close> and the empty string are
  the falsy names).
\<close>

definition csv_line :: "submission \<Rightarrow> cell list" where
  "csv_line r =
     [Text (parola r), Text (frase_indizio r),
      Text (case nome r of None \<Rightarrow> anonimo | Some n \<Rightarrow> if n = [] then anonimo else n),
      Stamp (timestamp r)]"

definition csv_header :: "cell list" where
  "csv_header = [Text (asc ''Parola''), Text (asc ''Frase Indizio''), Text (asc ''Nome''),
                 Text (asc ''Data'')]"

definition export_csv :: "session \<Rightarrow> store \<Rightarrow> outcome" where
  "export_csv s st =
     (if \<not> admin_logged_in s then \<lparr>resp = Abort 403, flashed = [], sess = s, db = st\<rparr>
      else \<lparr>resp = Csv (csv_header # map csv_line (newest_first (submissions st))),
             flashed = [], sess = s, db = st\<rparr>)"

text \<open>
  The \<open>try\<close> block of \<open>delete_submission\<close>: the exception it raises, or the message it
  flashed and the store it leaves (both of its ways out end in the redirect to the
  dashboard). \<open>abort(400)\<close> is raised inside the block.
\<close>

definition delete_try :: "int \<Rightarrow> store \<Rightarrow> exn + ((pystr \<times> string) \<times> store)" where
  "delete_try submission_id st =
     (if submission_id \<le> 0 then Inl (HTTPException 400)
      else
        (case select_by_id st submission_id of
           Inl x \<Rightarrow> Inl x
         | Inr None \<Rightarrow> Inr ((not_found, ''error''), st)
         | Inr (Some result) \<Rightarrow> Inr ((deleted, ''success''), delete_by_id st submission_id)))"

text \<open>
  \<open>delete_submission\<close>, the view of \<open>/admin/delete/<int:submission_id>\<close>. The gate is
  checked before the \<open>try\<close>; \<open>except Exception\<close> catches whatever the block raises, the
  \<open>abort(400)\<close> included.
\<close>

definition delete_submission :: "session \<Rightarrow> int \<Rightarrow> store \<Rightarrow> outcome" where
  "delete_submission s submission_id st =
     (if \<not> admin_logged_in s then \<lparr>resp = Abort 403, flashed = [], sess = s, db = st\<rparr>
      else
        (case delete_try submission_id st of
           Inl x \<Rightarrow>
             \<lparr>resp = Redirect Admin, flashed = [(delete_failed, ''error'')], sess = s, db = st\<rparr>
         | Inr (message, st') \<Rightarrow>
             \<lparr>resp = Redirect Admin, flashed = [message], sess = s, db = st'\<rparr>))"

definition admin_logout :: "session \<Rightarrow> store \<Rightarrow> outcome" where
  "admin_logout s st =
     \<lparr>resp = Redirect Index, flashed = [], sess = s\<lparr>admin_logged_in := False\<rparr>, db = st\<rparr>"

definition form_logout :: "session \<Rightarrow> store \<Rightarrow> outcome" where
  "form_logout s st =
     \<lparr>resp = Redirect Index, flashed = [(logged_out, ''success'')],
       sess = s\<lparr>form_access := False\<rparr>, db = st\<rparr>"

section \<open>Sequences of operations on the store\<close>

text \<open>
  The two public operations that can write to the table, each with the request data and
  the session of the client that sends it. A run applies them one after the other,
  starting from the table \<open>init_db\<close> creates.
\<close>

datatype operation =
    Post_index request session nat
  | Post_delete session int

fun step :: "env \<Rightarrow> operation \<Rightarrow> store \<Rightarrow> store" where
  "step e (Post_index rq s now) st = db (index e rq s st now)"
| "step e (Post_delete s i) st = db (delete_submission s i st)"

definition run :: "env \<Rightarrow> operation list \<Rightarrow> store" where
  "run e ops = fold (step e) ops init_db"

text \<open>The key of the duplicate guard, and the two properties of a table it is about.\<close>

definition guard_key :: "submission \<Rightarrow> pystr \<times> pystr" where
  "guard_key r = (parola r, frase_indizio r)"

definition unique_keys :: "store \<Rightarrow> bool" where
  "unique_keys st = distinct (map guard_key (submissions st))"

definition stored_lowercase :: "store \<Rightarrow> bool" where
  "stored_lowercase st = list_all (\<lambda>r. lower (parola r) = parola r) (submissions st)"

section \<open>Concrete data\<close>

text \<open>
  An environment for the concrete runs below: no variable is set, so the passwords are
  the defaults, and the sanitizer returns its text as it is. The library does so on text
  without markup, ampersands or control characters (\<open>test_sanitize_input\<close> checks it on
  \<open>'Normal text input'\<close>), and the runs below pass it such text only.
\<close>

definition plain_env :: env where
  "plain_env = \<lparr>environ = Map.empty, bleach_clean = (\<lambda>text. text)\<rparr>"

definition post :: "(string \<times> pystr) list \<Rightarrow> request" where
  "post kvs = \<lparr>request_method = POST, form = map_of kvs\<rparr>"

definition visitor :: session where
  "visitor = \<lparr>form_access = False, admin_logged_in = False, permanent = False\<rparr>"

definition contributor :: session where
  "contributor = \<lparr>form_access = True, admin_logged_in = False, permanent = True\<rparr>"

definition administrator :: session where
  "administrator = \<lparr>form_access = False, admin_logged_in = True, permanent = True\<rparr>"

text \<open>
  The contribution of the specification's example scenario, the row it becomes, and the
  table that holds just that row.
\<close>

definition gioia_fields :: "(string \<times> pystr) list" where
  "gioia_fields =
     [(''parola'', asc ''GIOIA''),
      (''frase_indizio'', asc ''Sentimento che trasmette sempre gioia''),
      (''nome'', asc ''Mario Rossi'')]"

definition gioia_row :: submission where
  "gioia_row =
     \<lparr>row_id = 1, parola = asc ''gioia'',
       frase_indizio = asc ''Sentimento che trasmette sempre gioia'',
       nome = Some (asc ''Mario Rossi''), timestamp = 7\<rparr>"

definition gioia_store :: store where
  "gioia_store = \<lparr>submissions = [gioia_row], sequence = 1\<rparr>"

text \<open>
  A password is accepted by a login view when it passes \<open>DataRequired\<close> and its sanitized
  form equals the configured secret.
\<close>

definition password_accepted :: "env \<Rightarrow> pystr \<Rightarrow> pystr \<Rightarrow> bool" where
  "password_accepted e secret pw = (data_required (Some pw) \<and> sanitize_input e pw = secret)"

text \<open>
  The same contribution with an empty name field, and with an \<open>access_password\<close> field
  added; a row whose name is \<open>NULL\<close>, and the table that holds just that row.
\<close>

definition nameless_fields :: "(string \<times> pystr) list" where
  "nameless_fields =
     [(''parola'', asc ''GIOIA''),
      (''frase_indizio'', asc ''Sentimento che trasmette sempre gioia''),
      (''nome'', [])]"

definition gioia_with_password :: "(string \<times> pystr) list" where
  "gioia_with_password = (''access_password'', asc ''x'') # gioia_fields"

definition nameless_row :: submission where
  "nameless_row =
     \<lparr>row_id = 1, parola = asc ''gioia'',
       frase_indizio = asc ''Sentimento che trasmette sempre gioia'',
       nome = None, timestamp = 7\<rparr>"

definition nameless_store :: store where
  "nameless_store = \<lparr>submissions = [nameless_row], sequence = 1\<rparr>"

section \<open>Facts about text\<close>

lemma dropWhile_keeps:
  "x \<in> set xs \<Longrightarrow> \<not> P x \<Longrightarrow> x \<in> set (dropWhile P xs)"
  by (induction xs) auto

lemma strip_keeps:
  assumes "c \<in> set s" and "\<not> isspace c"
  shows "c \<in> set (strip s)"
proof -
  from assms have "c \<in> set (rev (dropWhile isspace s))"
    by (simp add: dropWhile_keeps)
  then have "c \<in> set (dropWhile isspace (rev (dropWhile isspace s)))"
    using assms(2) by (rule dropWhile_keeps)
  then show ?thesis
    by (simp add: strip_def)
qed

lemma strip_subset: "set (strip s) \<subseteq> set s"
  by (auto simp: strip_def dest!: set_dropWhileD)

lemma match_plus_dollar_iff:
  assumes "cls 10"
  shows "match_plus_dollar cls s \<longleftrightarrow> s \<noteq> [] \<and> (\<forall>c\<in>set s. cls c)"
proof (induction s)
  case Nil
  show ?case by simp
next
  case (Cons c cs)
  show ?case
  proof (cases "cs = []")
    case True
    then show ?thesis by (simp add: at_dollar_def)
  next
    case False
    have "at_dollar cs \<Longrightarrow> \<forall>d\<in>set cs. cls d"
      using assms False by (auto simp: at_dollar_def)
    with Cons False show ?thesis by auto
  qed
qed

lemma word_class_iff: "word_class c \<longleftrightarrow> latin_letter c \<or> isspace c"
  by (auto simp: word_class_def latin_letter_def)

lemma not_word_class_digit_punct:
  "ascii_digit c \<or> ascii_punct c \<Longrightarrow> \<not> word_class c \<and> \<not> isspace c"
  by (auto simp: ascii_digit_def ascii_punct_def word_class_def isspace_def)

lemma is_valid_word_iff:
  "is_valid_word w \<longleftrightarrow> strip w \<noteq> [] \<and> (\<forall>c\<in>set (strip w). word_class c)"
  unfolding is_valid_word_def
  by (rule match_plus_dollar_iff) (simp add: word_class_def isspace_def)

text \<open>
  A word that \<open>is_valid_word\<close> accepts has characters of the pattern's class only, before
  trimming too: these are the characters \<open>lower\<close> is applied to.
\<close>

lemma is_valid_word_chars:
  assumes "is_valid_word w" and "c \<in> set w"
  shows "word_class c"
proof (cases "isspace c")
  case True
  then show ?thesis by (simp add: word_class_def)
next
  case False
  with assms(2) have "c \<in> set (strip w)" by (rule strip_keeps)
  with assms(1) show ?thesis by (simp add: is_valid_word_iff)
qed

lemma strip_unchanged:
  assumes "s \<noteq> []" and "\<not> isspace (hd s)" and "\<not> isspace (last s)"
  shows "strip s = s"
proof -
  from assms have head: "dropWhile isspace s = s"
    by (cases s) auto
  from assms have "rev s \<noteq> []" and "\<not> isspace (hd (rev s))"
    by (auto simp: hd_rev)
  then have tail: "dropWhile isspace (rev s) = rev s"
    by (cases "rev s") auto
  show ?thesis
    by (simp add: strip_def head tail)
qed

lemma strip_trailing_space:
  assumes "strip s \<noteq> []"
  shows "strip (s @ [32]) = strip s"
proof -
  have "dropWhile isspace s = [] \<Longrightarrow> strip s = []"
    unfolding strip_def by (simp del: dropWhile_eq_Nil_conv)
  with assms have "dropWhile isspace s \<noteq> []"
    by blast
  then obtain x where x: "x \<in> set s" "\<not> isspace x"
    by (auto simp: dropWhile_eq_Nil_conv)
  then have "dropWhile isspace (s @ [32]) = dropWhile isspace s @ [32]"
    by (simp add: dropWhile_append1)
  moreover have "isspace 32"
    by (simp add: isspace_def)
  ultimately show ?thesis
    by (simp add: strip_def)
qed

lemma lower_char_idem: "lower_char (lower_char c) = lower_char c"
  by (simp add: lower_char_def)

lemma lower_idem: "lower (lower s) = lower s"
  by (simp add: lower_def lower_char_idem)

section \<open>Facts about the table\<close>

lemma select_by_parola_frase_None:
  "select_by_parola_frase st w clue = None \<longleftrightarrow> (w, clue) \<notin> guard_key ` set (submissions st)"
  by (auto simp: select_by_parola_frase_def find_None_iff guard_key_def)

lemma unique_keys_delete: "unique_keys st \<Longrightarrow> unique_keys (delete_by_id st i)"
  by (simp add: unique_keys_def delete_by_id_def distinct_map_filter)

lemma stored_lowercase_delete: "stored_lowercase st \<Longrightarrow> stored_lowercase (delete_by_id st i)"
  by (simp add: stored_lowercase_def delete_by_id_def list_all_iff)

lemma set_newest_first: "set (newest_first rs) = set rs"
  by (simp add: newest_first_def)

lemma length_newest_first: "length (newest_first rs) = length rs"
  by (simp add: newest_first_def)

section \<open>Facts about the views\<close>

lemma ContributionForm_errors_data:
  assumes "ContributionForm_errors fd = []"
  shows "\<exists>p f n. fd ''parola'' = Some p \<and> fd ''frase_indizio'' = Some f \<and> fd ''nome'' = Some n"
proof -
  from assms have "data_required (fd ''parola'')" and "data_required (fd ''frase_indizio'')"
    and "data_required (fd ''nome'')"
    by (auto simp: ContributionForm_errors_def field_errors_def split: if_splits)
  then show ?thesis
    by (cases "fd ''parola''"; cases "fd ''frase_indizio''"; cases "fd ''nome''") auto
qed

lemma index_contribution:
  assumes "request_method rq = POST" and "form rq ''access_password'' = None"
    and "form_access s" and "ContributionForm_errors (form rq) = []"
    and "form rq ''parola'' = Some p" and "form rq ''frase_indizio'' = Some f"
    and "form rq ''nome'' = Some n"
  shows "index e rq s st now = store_contribution e p f n s st now"
  using assms by (simp add: index_def)

lemma index_invalid_form:
  assumes "request_method rq = POST" and "form rq ''access_password'' = None"
    and "form_access s" and "ContributionForm_errors (form rq) \<noteq> []"
  shows "index e rq s st now =
           \<lparr>resp = Index_html,
             flashed = map (\<lambda>m. (m, ''error'')) (ContributionForm_errors (form rq)),
             sess = s, db = st\<rparr>"
  using assms by (simp add: index_def index_page_def)

lemma store_contribution_accepted:
  assumes "is_valid_word (sanitize_input e p)" and "is_valid_clue (sanitize_input e f)"
    and "select_by_parola_frase st (lower (sanitize_input e p)) (sanitize_input e f) = None"
    and "top_rowid st < max_rowid"
  shows "store_contribution e p f n s st now =
           \<lparr>resp = Success_html (sanitize_input e n), flashed = [(thanks, ''success'')],
             sess = s,
             db = \<lparr>submissions = submissions st @
                      [\<lparr>row_id = top_rowid st + 1, parola = lower (sanitize_input e p),
                        frase_indizio = sanitize_input e f,
                        nome = Some (sanitize_input e n), timestamp = now\<rparr>],
                    sequence = top_rowid st + 1\<rparr>\<rparr>"
  using assms by (simp add: store_contribution_def insert_submission_def Let_def)

lemma store_contribution_duplicate:
  assumes "is_valid_word (sanitize_input e p)" and "is_valid_clue (sanitize_input e f)"
    and "select_by_parola_frase st (lower (sanitize_input e p)) (sanitize_input e f) \<noteq> None"
  shows "store_contribution e p f n s st now =
           \<lparr>resp = Index_html, flashed = [(already_registered, ''error'')], sess = s, db = st\<rparr>"
  using assms by (auto simp: store_contribution_def Let_def)

lemma store_contribution_Success:
  assumes "resp (store_contribution e p f n s st now) = Success_html x"
  shows "is_valid_word (sanitize_input e p) \<and> is_valid_clue (sanitize_input e f) \<and>
         select_by_parola_frase st (lower (sanitize_input e p)) (sanitize_input e f) = None \<and>
         top_rowid st < max_rowid \<and> x = sanitize_input e n"
  using assms
  by (simp add: store_contribution_def insert_submission_def Let_def
      split: if_splits option.splits)

lemma index_page_not_Success: "index_page s \<noteq> Success_html x"
  by (simp add: index_page_def)

lemma index_Success:
  assumes "resp (index e rq s st now) = Success_html x"
  shows "request_method rq = POST \<and> form rq ''access_password'' = None \<and> form_access s \<and>
         ContributionForm_errors (form rq) = [] \<and>
         (\<exists>p f n. form rq ''parola'' = Some p \<and> form rq ''frase_indizio'' = Some f \<and>
            form rq ''nome'' = Some n \<and>
            index e rq s st now = store_contribution e p f n s st now)"
proof -
  have post: "request_method rq = POST"
    using assms by (auto simp: index_def index_page_not_Success split: if_splits)
  have nopw: "form rq ''access_password'' = None"
    using assms post by (auto simp: index_def Let_def split: if_splits option.splits)
  have gate: "form_access s"
    using assms post nopw by (auto simp: index_def split: if_splits)
  have valid: "ContributionForm_errors (form rq) = []"
    using assms post nopw gate
    by (auto simp: index_def index_page_not_Success split: if_splits)
  from ContributionForm_errors_data [OF valid] obtain p f n
    where data: "form rq ''parola'' = Some p" "form rq ''frase_indizio'' = Some f"
      "form rq ''nome'' = Some n"
    by blast
  from index_contribution [OF post nopw gate valid data] post nopw gate valid data
  show ?thesis by blast
qed

lemma store_contribution_db:
  "db (store_contribution e p f n s st now) = st \<or>
   (\<exists>w c name. select_by_parola_frase st (lower w) c = None \<and>
      db (store_contribution e p f n s st now) =
        \<lparr>submissions = submissions st @
           [\<lparr>row_id = top_rowid st + 1, parola = lower w, frase_indizio = c,
             nome = Some name, timestamp = now\<rparr>],
         sequence = top_rowid st + 1\<rparr>)"
  by (auto simp: store_contribution_def insert_submission_def Let_def split: option.splits)

lemma index_db:
  "db (index e rq s st now) = st \<or>
   (\<exists>w c name. select_by_parola_frase st (lower w) c = None \<and>
      db (index e rq s st now) =
        \<lparr>submissions = submissions st @
           [\<lparr>row_id = top_rowid st + 1, parola = lower w, frase_indizio = c,
             nome = Some name, timestamp = now\<rparr>],
         sequence = top_rowid st + 1\<rparr>)"
proof (cases "request_method rq = POST \<and> form rq ''access_password'' = None \<and> form_access s \<and>
    ContributionForm_errors (form rq) = []")
  case True
  with ContributionForm_errors_data obtain p f n
    where "form rq ''parola'' = Some p" "form rq ''frase_indizio'' = Some f"
      "form rq ''nome'' = Some n"
    by blast
  with True have "index e rq s st now = store_contribution e p f n s st now"
    by (simp add: index_contribution)
  then show ?thesis
    using store_contribution_db [of e p f n s st now] by simp
next
  case False
  then have "db (index e rq s st now) = st"
    by (auto simp: index_def Let_def split: option.splits)
  then show ?thesis ..
qed

lemma delete_submission_db:
  "db (delete_submission s i st) = st \<or> db (delete_submission s i st) = delete_by_id st i"
  by (auto simp: delete_submission_def delete_try_def select_by_id_def
      split: sum.splits option.splits prod.splits if_splits)

section \<open>The example contribution, step by step\<close>

lemma sanitize_plain: "text \<noteq> [] \<Longrightarrow> sanitize_input plain_env text = strip text"
  by (simp add: sanitize_input_def plain_env_def)

lemma gioia_form:
  "request_method (post gioia_fields) = POST"
  "form (post gioia_fields) ''access_password'' = None"
  "form (post gioia_fields) ''parola'' = Some (asc ''GIOIA'')"
  "form (post gioia_fields) ''frase_indizio'' = Some (asc ''Sentimento che trasmette sempre gioia'')"
  "form (post gioia_fields) ''nome'' = Some (asc ''Mario Rossi'')"
  by (simp_all add: post_def gioia_fields_def)

lemma gioia_strip:
  "strip (asc ''GIOIA'') = asc ''GIOIA''"
  "strip (asc ''Sentimento che trasmette sempre gioia'') = asc ''Sentimento che trasmette sempre gioia''"
  "strip (asc ''Mario Rossi'') = asc ''Mario Rossi''"
  by (rule strip_unchanged; simp add: asc_def isspace_def)+

lemma gioia_nonempty:
  "asc ''GIOIA'' \<noteq> []"
  "asc ''Sentimento che trasmette sempre gioia'' \<noteq> []"
  "asc ''Mario Rossi'' \<noteq> []"
  by (simp_all add: asc_def)

lemma gioia_sanitize:
  "sanitize_input plain_env (asc ''GIOIA'') = asc ''GIOIA''"
  "sanitize_input plain_env (asc ''Sentimento che trasmette sempre gioia'') =
     asc ''Sentimento che trasmette sempre gioia''"
  "sanitize_input plain_env (asc ''Mario Rossi'') = asc ''Mario Rossi''"
  by (simp_all add: sanitize_plain gioia_strip gioia_nonempty)

lemma gioia_form_valid: "ContributionForm_errors (form (post gioia_fields)) = []"
  by (simp add: ContributionForm_errors_def field_errors_def gioia_form gioia_strip)
    (simp add: asc_def)

lemma gioia_word_valid: "is_valid_word (asc ''GIOIA'')"
  by (simp add: is_valid_word_iff gioia_strip) (simp add: asc_def word_class_def)

lemma gioia_clue_valid: "is_valid_clue (asc ''Sentimento che trasmette sempre gioia'')"
  by (simp add: is_valid_clue_def gioia_strip) (simp add: asc_def)

lemma gioia_lower: "lower (asc ''GIOIA'') = asc ''gioia''"
  by (simp add: lower_def lower_char_def asc_def)

lemma gioia_new: "select_by_parola_frase init_db w clue = None"
  by (simp add: select_by_parola_frase_def init_db_def)

lemma gioia_known:
  "select_by_parola_frase gioia_store (asc ''gioia'')
     (asc ''Sentimento che trasmette sempre gioia'') = Some gioia_row"
  by (simp add: select_by_parola_frase_def gioia_store_def gioia_row_def)

lemma init_db_room:
  "top_rowid init_db = 0" "top_rowid init_db < max_rowid" "submissions init_db = []"
  by (simp_all add: top_rowid_def init_db_def max_rowid_def)

lemma gioia_accepted:
  "index plain_env (post gioia_fields) contributor init_db 7 =
     \<lparr>resp = Success_html (asc ''Mario Rossi''), flashed = [(thanks, ''success'')],
       sess = contributor, db = gioia_store\<rparr>"
proof -
  have gate: "form_access contributor"
    by (simp add: contributor_def)
  have "index plain_env (post gioia_fields) contributor init_db 7 =
          store_contribution plain_env (asc ''GIOIA'')
            (asc ''Sentimento che trasmette sempre gioia'') (asc ''Mario Rossi'')
            contributor init_db 7"
    using gioia_form(1,2) gate gioia_form_valid gioia_form(3,4,5)
    by (rule index_contribution)
  also have "\<dots> = \<lparr>resp = Success_html (asc ''Mario Rossi''),
      flashed = [(thanks, ''success'')], sess = contributor, db = gioia_store\<rparr>"
    using init_db_room(2)
    by (subst store_contribution_accepted)
      (simp_all add: gioia_sanitize gioia_word_valid gioia_clue_valid gioia_lower gioia_new
        init_db_room(1,3) gioia_store_def gioia_row_def)
  finally show ?thesis .
qed

lemma gioia_repeated:
  "index plain_env (post gioia_fields) contributor gioia_store 9 =
     \<lparr>resp = Index_html, flashed = [(already_registered, ''error'')], sess = contributor,
       db = gioia_store\<rparr>"
proof -
  have gate: "form_access contributor"
    by (simp add: contributor_def)
  have "index plain_env (post gioia_fields) contributor gioia_store 9 =
          store_contribution plain_env (asc ''GIOIA'')
            (asc ''Sentimento che trasmette sempre gioia'') (asc ''Mario Rossi'')
            contributor gioia_store 9"
    using gioia_form(1,2) gate gioia_form_valid gioia_form(3,4,5)
    by (rule index_contribution)
  also have "\<dots> = \<lparr>resp = Index_html, flashed = [(already_registered, ''error'')],
      sess = contributor, db = gioia_store\<rparr>"
    by (rule store_contribution_duplicate)
      (simp_all add: gioia_sanitize gioia_word_valid gioia_clue_valid gioia_lower gioia_known)
  finally show ?thesis .
qed

section \<open>The word validator\<close>

lemmas word_eval = is_valid_word_def strip_def isspace_def word_class_def at_dollar_def asc_def

text \<open>
  C6 (as amended). \<open>is_valid_word\<close> accepts a string exactly when its trimmed form is not
  empty and consists of Latin letters (ASCII letters and the twenty accented vowels) and
  whitespace characters, the whole class \<open>\s\<close> and not only the space. A string with an
  ASCII digit or punctuation mark anywhere is rejected. \<open>"Hello123"\<close> and \<open>"Hello!"\<close> are
  rejected, \<open>"Hello World"\<close> and \<open>"citt"\<close> followed by U+00E0
  accepted.
\<close>

theorem word_validator_rule:
  "(is_valid_word w \<longleftrightarrow> strip w \<noteq> [] \<and> (\<forall>c\<in>set (strip w). latin_letter c \<or> isspace c)) \<and>
   ((\<exists>c\<in>set w. ascii_digit c \<or> ascii_punct c) \<longrightarrow> \<not> is_valid_word w) \<and>
   \<not> is_valid_word (asc ''Hello123'') \<and> \<not> is_valid_word (asc ''Hello!'') \<and>
   is_valid_word (asc ''Hello World'') \<and> is_valid_word (asc ''citt'' @ [224])"
proof (intro conjI)
  show "is_valid_word w \<longleftrightarrow> strip w \<noteq> [] \<and> (\<forall>c\<in>set (strip w). latin_letter c \<or> isspace c)"
    by (simp add: is_valid_word_iff word_class_iff)
  show "(\<exists>c\<in>set w. ascii_digit c \<or> ascii_punct c) \<longrightarrow> \<not> is_valid_word w"
  proof
    assume "\<exists>c\<in>set w. ascii_digit c \<or> ascii_punct c"
    then obtain c where c: "c \<in> set w" "ascii_digit c \<or> ascii_punct c" by blast
    from c(2) have n: "\<not> word_class c" "\<not> isspace c"
      using not_word_class_digit_punct by blast+
    from c(1) n(2) have "c \<in> set (strip w)" by (rule strip_keeps)
    with n(1) show "\<not> is_valid_word w" by (auto simp: is_valid_word_iff)
  qed
  show "\<not> is_valid_word (asc ''Hello123'')" by (simp add: word_eval)
  show "\<not> is_valid_word (asc ''Hello!'')" by (simp add: word_eval)
  show "is_valid_word (asc ''Hello World'')" by (simp add: word_eval)
  show "is_valid_word (asc ''citt'' @ [224])" by (simp add: word_eval)
qed

theorem word_validator_rule_witness:
  "(\<exists>c\<in>set (asc ''Hello123''). ascii_digit c \<or> ascii_punct c) \<and>
   \<not> is_valid_word (asc ''Hello123'') \<and>
   strip (asc ''Hello World'') \<noteq> [] \<and> is_valid_word (asc ''Hello World'')"
proof -
  have d: "\<exists>c\<in>set (asc ''Hello123''). ascii_digit c \<or> ascii_punct c"
    by (simp add: asc_def ascii_digit_def)
  have s: "strip (asc ''Hello World'') = asc ''Hello World''"
    by (simp add: strip_def asc_def isspace_def)
  have l: "\<forall>c\<in>set (strip (asc ''Hello World'')). latin_letter c \<or> isspace c"
    unfolding s by (simp add: asc_def latin_letter_def isspace_def)
  from d word_validator_rule [of "asc ''Hello123''"] have "\<not> is_valid_word (asc ''Hello123'')"
    by blast
  moreover from s l word_validator_rule [of "asc ''Hello World''"]
  have "is_valid_word (asc ''Hello World'')"
    by (simp add: asc_def)
  ultimately show ?thesis using d s by (simp add: asc_def)
qed

text \<open>
  The rule as the specification words it fails in both directions: a word with a tab inside
  is accepted, and a string of two spaces, whose trimmed form is empty and so has only
  permitted characters, is rejected.
\<close>

theorem word_validator_counterexample:
  "is_valid_word [97, 9, 98] \<and> \<not> spec_word_rule [97, 9, 98] \<and>
   [32, 32] \<noteq> [] \<and> spec_word_rule [32, 32] \<and> \<not> is_valid_word [32, 32]"
  by (simp add: word_eval spec_word_rule_def latin_letter_def)

section \<open>The sanitizer\<close>

text \<open>
  \<open>sanitize_input\<close> itself only trims and delegates: which characters of a text with
  markup survive is decided by the library function, a parameter here. What the
  repository's code adds is that the empty text is passed through, and that the output is
  free of tag delimiters as soon as the library's outputs are.
\<close>

lemma sanitize_input_delegates:
  "sanitize_input e [] = []"
  "text \<noteq> [] \<Longrightarrow> sanitize_input e text = bleach_clean e (strip text)"
  by (simp_all add: sanitize_input_def)

lemma sanitize_input_no_delimiter:
  assumes "\<And>t. \<not> list_ex tag_delimiter (bleach_clean e t)"
  shows "\<not> list_ex tag_delimiter (sanitize_input e text)"
  using assms by (simp add: sanitize_input_def)

section \<open>The login views\<close>

lemma index_login:
  assumes "request_method rq = POST" and "form rq ''access_password'' = Some pw"
  shows "index e rq s st now =
     (if password_accepted e (get_form_password e) pw then
        \<lparr>resp = Redirect Index, flashed = [],
          sess = s\<lparr>form_access := True, permanent := True\<rparr>, db = st\<rparr>
      else if data_required (Some pw) then
        \<lparr>resp = Form_login_html [], flashed = [(form_password_wrong, ''error'')], sess = s,
          db = st\<rparr>
      else
        \<lparr>resp = Form_login_html [required_default], flashed = [], sess = s, db = st\<rparr>)"
  using assms by (simp add: index_def password_accepted_def Let_def)

lemma admin_login:
  assumes "request_method rq = POST" and "form rq ''password'' = Some pw"
  shows "admin e rq s st =
     (if password_accepted e (get_admin_password e) pw then
        \<lparr>resp = Redirect Admin, flashed = [],
          sess = s\<lparr>admin_logged_in := True, permanent := True\<rparr>, db = st\<rparr>
      else if data_required (Some pw) then
        \<lparr>resp = Admin_login_html [], flashed = [(admin_password_wrong, ''error'')], sess = s,
          db = st\<rparr>
      else
        \<lparr>resp = Admin_login_html [required_default], flashed = [], sess = s, db = st\<rparr>)"
  using assms by (simp add: admin_def password_accepted_def Let_def)

text \<open>
  Acceptance is never plain equality with the secret, whatever the sanitizer and whatever
  the secret: either the secret itself is turned away, or the secret followed by a space
  is let in.
\<close>

lemma password_accepted_not_equality:
  "\<not> password_accepted e secret secret \<or> password_accepted e secret (secret @ [32])"
proof (cases "password_accepted e secret secret")
  case False
  then show ?thesis ..
next
  case True
  then have filled: "strip secret \<noteq> []" and clean: "bleach_clean e (strip secret) = secret"
    by (auto simp: password_accepted_def sanitize_input_def split: if_splits)
  from filled have "strip (secret @ [32]) = strip secret"
    by (rule strip_trailing_space)
  with filled clean have "password_accepted e secret (secret @ [32])"
    by (simp add: password_accepted_def sanitize_input_def)
  then show ?thesis ..
qed

lemma plain_passwords:
  "get_form_password plain_env = asc ''bianca''"
  "get_admin_password plain_env = asc ''bianca2024''"
  by (simp_all add: get_form_password_def get_admin_password_def getenv_def plain_env_def)

lemma padded_passwords:
  "password_accepted plain_env (asc ''bianca'') (asc '' bianca '')"
  "password_accepted plain_env (asc ''bianca2024'') (asc '' bianca2024 '')"
  "asc '' bianca '' \<noteq> asc ''bianca''"
  "asc '' bianca2024 '' \<noteq> asc ''bianca2024''"
  by (simp_all add: password_accepted_def sanitize_input_def plain_env_def strip_def asc_def
      isspace_def)

lemma exact_passwords:
  "password_accepted plain_env (asc ''bianca'') (asc ''bianca'')"
  "\<not> password_accepted plain_env (asc ''bianca'') (asc ''Bianca'')"
  "data_required (Some (asc ''Bianca''))"
  by (simp_all add: password_accepted_def sanitize_input_def plain_env_def strip_def asc_def
      isspace_def)

text \<open>
  C4 (as amended). Both login views grant their gate exactly when the submitted secret
  passes \<open>DataRequired\<close> (it is not blank) and its sanitized form, trimmed and cleaned,
  equals the configured secret, code point for code point and so case-sensitively. Then
  the flag and \<open>session.permanent\<close> are set and the view redirects. Otherwise the session
  is as it was and the login template is rendered: with the "Password errata" flash when
  the secret was not blank, with the field's "required" error when it was. The table is
  never touched. Acceptance is therefore not equality with the submitted string: for any
  secret, either the secret itself is refused or the secret followed by a space is
  accepted.
\<close>

theorem login_grants_sanitized_match:
  "(request_method rq = POST \<and> form rq ''access_password'' = Some pw \<longrightarrow>
      form_access (sess (index e rq s st now)) =
        (form_access s \<or> password_accepted e (get_form_password e) pw) \<and>
      (resp (index e rq s st now) = Redirect Index) =
        password_accepted e (get_form_password e) pw \<and>
      (password_accepted e (get_form_password e) pw \<longrightarrow>
         sess (index e rq s st now) = s\<lparr>form_access := True, permanent := True\<rparr> \<and>
         flashed (index e rq s st now) = []) \<and>
      (\<not> password_accepted e (get_form_password e) pw \<longrightarrow>
         sess (index e rq s st now) = s \<and>
         (if data_required (Some pw)
          then resp (index e rq s st now) = Form_login_html [] \<and>
               flashed (index e rq s st now) = [(form_password_wrong, ''error'')]
          else resp (index e rq s st now) = Form_login_html [required_default] \<and>
               flashed (index e rq s st now) = [])) \<and>
      db (index e rq s st now) = st) \<and>
   (request_method rq = POST \<and> form rq ''password'' = Some pw \<longrightarrow>
      admin_logged_in (sess (admin e rq s st)) =
        (admin_logged_in s \<or> password_accepted e (get_admin_password e) pw) \<and>
      (resp (admin e rq s st) = Redirect Admin) =
        password_accepted e (get_admin_password e) pw \<and>
      (password_accepted e (get_admin_password e) pw \<longrightarrow>
         sess (admin e rq s st) = s\<lparr>admin_logged_in := True, permanent := True\<rparr> \<and>
         flashed (admin e rq s st) = []) \<and>
      (\<not> password_accepted e (get_admin_password e) pw \<longrightarrow>
         sess (admin e rq s st) = s \<and>
         (if data_required (Some pw)
          then resp (admin e rq s st) = Admin_login_html [] \<and>
               flashed (admin e rq s st) = [(admin_password_wrong, ''error'')]
          else resp (admin e rq s st) = Admin_login_html [required_default] \<and>
               flashed (admin e rq s st) = [])) \<and>
      db (admin e rq s st) = st) \<and>
   (\<not> password_accepted e secret secret \<or> password_accepted e secret (secret @ [32]))"
proof (intro conjI impI)
  assume "request_method rq = POST \<and> form rq ''access_password'' = Some pw"
  then have eq: "index e rq s st now =
     (if password_accepted e (get_form_password e) pw then
        \<lparr>resp = Redirect Index, flashed = [],
          sess = s\<lparr>form_access := True, permanent := True\<rparr>, db = st\<rparr>
      else if data_required (Some pw) then
        \<lparr>resp = Form_login_html [], flashed = [(form_password_wrong, ''error'')], sess = s,
          db = st\<rparr>
      else
        \<lparr>resp = Form_login_html [required_default], flashed = [], sess = s, db = st\<rparr>)"
    by (simp add: index_login)
  show "form_access (sess (index e rq s st now)) =
      (form_access s \<or> password_accepted e (get_form_password e) pw)"
    and "(resp (index e rq s st now) = Redirect Index) =
      password_accepted e (get_form_password e) pw"
    and "db (index e rq s st now) = st"
    unfolding eq by simp_all
  {
    assume "password_accepted e (get_form_password e) pw"
    then show "sess (index e rq s st now) = s\<lparr>form_access := True, permanent := True\<rparr>"
      and "flashed (index e rq s st now) = []"
      unfolding eq by simp_all
  }
  {
    assume "\<not> password_accepted e (get_form_password e) pw"
    then show "sess (index e rq s st now) = s"
      and "if data_required (Some pw)
          then resp (index e rq s st now) = Form_login_html [] \<and>
               flashed (index e rq s st now) = [(form_password_wrong, ''error'')]
          else resp (index e rq s st now) = Form_login_html [required_default] \<and>
               flashed (index e rq s st now) = []"
      unfolding eq by simp_all
  }
next
  assume "request_method rq = POST \<and> form rq ''password'' = Some pw"
  then have eq: "admin e rq s st =
     (if password_accepted e (get_admin_password e) pw then
        \<lparr>resp = Redirect Admin, flashed = [],
          sess = s\<lparr>admin_logged_in := True, permanent := True\<rparr>, db = st\<rparr>
      else if data_required (Some pw) then
        \<lparr>resp = Admin_login_html [], flashed = [(admin_password_wrong, ''error'')], sess = s,
          db = st\<rparr>
      else
        \<lparr>resp = Admin_login_html [required_default], flashed = [], sess = s, db = st\<rparr>)"
    by (simp add: admin_login)
  show "admin_logged_in (sess (admin e rq s st)) =
      (admin_logged_in s \<or> password_accepted e (get_admin_password e) pw)"
    and "(resp (admin e rq s st) = Redirect Admin) =
      password_accepted e (get_admin_password e) pw"
    and "db (admin e rq s st) = st"
    unfolding eq by simp_all
  {
    assume "password_accepted e (get_admin_password e) pw"
    then show "sess (admin e rq s st) = s\<lparr>admin_logged_in := True, permanent := True\<rparr>"
      and "flashed (admin e rq s st) = []"
      unfolding eq by simp_all
  }
  {
    assume "\<not> password_accepted e (get_admin_password e) pw"
    then show "sess (admin e rq s st) = s"
      and "if data_required (Some pw)
          then resp (admin e rq s st) = Admin_login_html [] \<and>
               flashed (admin e rq s st) = [(admin_password_wrong, ''error'')]
          else resp (admin e rq s st) = Admin_login_html [required_default] \<and>
               flashed (admin e rq s st) = []"
      unfolding eq by simp_all
  }
next
  show "\<not> password_accepted e secret secret \<or> password_accepted e secret (secret @ [32])"
    by (rule password_accepted_not_equality)
qed

theorem login_grants_sanitized_match_witness:
  "form_access (sess (index plain_env (post [(''access_password'', asc ''bianca'')])
      visitor init_db 0)) \<and>
   \<not> form_access (sess (index plain_env (post [(''access_password'', asc ''Bianca'')])
      visitor init_db 0)) \<and>
   flashed (index plain_env (post [(''access_password'', asc ''Bianca'')]) visitor init_db 0) =
     [(form_password_wrong, ''error'')] \<and>
   admin_logged_in (sess (admin plain_env (post [(''password'', asc '' bianca2024 '')])
      visitor init_db))"
proof -
  have rq: "request_method (post [(''access_password'', x)]) = POST \<and>
      form (post [(''access_password'', x)]) ''access_password'' = Some x"
    and rq': "request_method (post [(''password'', x)]) = POST \<and>
      form (post [(''password'', x)]) ''password'' = Some x" for x
    by (simp_all add: post_def)
  have v: "\<not> form_access visitor" "\<not> admin_logged_in visitor"
    by (simp_all add: visitor_def)
  from login_grants_sanitized_match
    [of "post [(''access_password'', asc ''bianca'')]" "asc ''bianca''" plain_env visitor
      init_db 0]
    rq exact_passwords(1)
  have a: "form_access (sess (index plain_env (post [(''access_password'', asc ''bianca'')])
      visitor init_db 0))"
    by (simp add: plain_passwords)
  from login_grants_sanitized_match
    [of "post [(''access_password'', asc ''Bianca'')]" "asc ''Bianca''" plain_env visitor
      init_db 0]
    rq exact_passwords(2,3) v
  have b: "\<not> form_access (sess (index plain_env (post [(''access_password'', asc ''Bianca'')])
      visitor init_db 0))"
    "flashed (index plain_env (post [(''access_password'', asc ''Bianca'')]) visitor init_db 0) =
     [(form_password_wrong, ''error'')]"
    by (simp_all add: plain_passwords)
  from login_grants_sanitized_match
    [of "post [(''password'', asc '' bianca2024 '')]" "asc '' bianca2024 ''" plain_env visitor
      init_db]
    rq' padded_passwords(2)
  have c: "admin_logged_in (sess (admin plain_env (post [(''password'', asc '' bianca2024 '')])
      visitor init_db))"
    by (simp add: plain_passwords)
  from a b c show ?thesis
    by simp
qed

text \<open>
  As the specification states it, with plain equality for every submitted string, the
  property fails: the default secrets with a space before and after are not the secrets,
  and both views grant their gate on them.
\<close>

theorem login_grants_counterexample:
  "asc '' bianca '' \<noteq> get_form_password plain_env \<and>
   resp (index plain_env (post [(''access_password'', asc '' bianca '')]) visitor init_db 0) =
     Redirect Index \<and>
   form_access (sess (index plain_env (post [(''access_password'', asc '' bianca '')])
     visitor init_db 0)) \<and>
   asc '' bianca2024 '' \<noteq> get_admin_password plain_env \<and>
   resp (admin plain_env (post [(''password'', asc '' bianca2024 '')]) visitor init_db) =
     Redirect Admin \<and>
   admin_logged_in (sess (admin plain_env (post [(''password'', asc '' bianca2024 '')])
     visitor init_db))"
proof -
  have "request_method (post [(''access_password'', x)]) = POST"
    and "form (post [(''access_password'', x)]) ''access_password'' = Some x"
    and "request_method (post [(''password'', x)]) = POST"
    and "form (post [(''password'', x)]) ''password'' = Some x" for x
    by (simp_all add: post_def)
  then show ?thesis
    by (simp add: index_login admin_login plain_passwords padded_passwords)
qed

section \<open>Storing a contribution\<close>

text \<open>
  C1 (as amended). A POST to \<open>/\<close> without \<open>access_password\<close>, sent with the contributor
  gate, whose three fields pass the required and length checks, whose sanitized word
  passes \<open>is_valid_word\<close> and whose sanitized clue passes \<open>is_valid_clue\<close>, inserts exactly
  one row, provided that the pair (lowercased sanitized word, sanitized clue) is not in
  the table yet and the table can still hand out a row id. The row is appended with the
  next id, the word lowercased, the clue and the name as the sanitizer returned them, and
  the clock's timestamp; the response is the success page with that name.
\<close>

theorem contribution_stored:
  assumes "request_method rq = POST" and "form rq ''access_password'' = None"
    and "form_access s"
    and "form rq ''parola'' = Some p" and "form rq ''frase_indizio'' = Some f"
    and "form rq ''nome'' = Some n"
    and "ContributionForm_errors (form rq) = []"
    and "is_valid_word (sanitize_input e p)" and "is_valid_clue (sanitize_input e f)"
    and "select_by_parola_frase st (lower (sanitize_input e p)) (sanitize_input e f) = None"
    and "top_rowid st < max_rowid"
  shows "submissions (db (index e rq s st now)) =
           submissions st @
             [\<lparr>row_id = top_rowid st + 1, parola = lower (sanitize_input e p),
               frase_indizio = sanitize_input e f, nome = Some (sanitize_input e n),
               timestamp = now\<rparr>] \<and>
         resp (index e rq s st now) = Success_html (sanitize_input e n) \<and>
         flashed (index e rq s st now) = [(thanks, ''success'')] \<and>
         sess (index e rq s st now) = s"
proof -
  have "index e rq s st now = store_contribution e p f n s st now"
    using assms(1,2,3,7,4,5,6) by (rule index_contribution)
  also note store_contribution_accepted [OF assms(8,9,10,11)]
  finally show ?thesis by simp
qed

theorem contribution_stored_witness:
  "submissions (db (index plain_env (post gioia_fields) contributor init_db 7)) = [gioia_row] \<and>
   resp (index plain_env (post gioia_fields) contributor init_db 7) =
     Success_html (asc ''Mario Rossi'')"
proof -
  have gate: "form_access contributor"
    by (simp add: contributor_def)
  have word: "is_valid_word (sanitize_input plain_env (asc ''GIOIA''))"
    by (simp add: gioia_sanitize gioia_word_valid)
  have clue: "is_valid_clue
      (sanitize_input plain_env (asc ''Sentimento che trasmette sempre gioia''))"
    by (simp add: gioia_sanitize gioia_clue_valid)
  from contribution_stored [OF gioia_form(1,2) gate gioia_form(3,4,5) gioia_form_valid
      word clue gioia_new init_db_room(2), of 7]
  show ?thesis
    by (simp add: gioia_sanitize gioia_lower init_db_room gioia_row_def)
qed

text \<open>
  As the specification states it, with no condition on the table, the property fails:
  the example contribution passes every check, and sent to a table that already holds
  its pair it adds no row.
\<close>

theorem contribution_stored_counterexample:
  "form_access contributor \<and>
   ContributionForm_errors (form (post gioia_fields)) = [] \<and>
   is_valid_word (sanitize_input plain_env (asc ''GIOIA'')) \<and>
   is_valid_clue (sanitize_input plain_env (asc ''Sentimento che trasmette sempre gioia'')) \<and>
   db (index plain_env (post gioia_fields) contributor gioia_store 9) = gioia_store \<and>
   flashed (index plain_env (post gioia_fields) contributor gioia_store 9) =
     [(already_registered, ''error'')]"
proof -
  have "form_access contributor"
    by (simp add: contributor_def)
  then show ?thesis
    by (simp add: gioia_repeated gioia_form_valid gioia_sanitize gioia_word_valid
        gioia_clue_valid)
qed

section \<open>The duplicate guard\<close>

text \<open>
  C2. When a contribution has been accepted, a following POST with the same word and clue
  fields (by any client holding the contributor gate, with any valid name, at any later
  time) is rejected with the "already recorded" message and leaves the table as the first
  one left it, which is the old table and one row. The guard compares exactly: after the
  accepted contribution a pair of sanitized word and clue is a duplicate when it was one
  before, or when its lowercased word equals the lowercased accepted word and its clue
  equals the accepted clue character for character.
\<close>

theorem duplicate_rejected:
  assumes "resp (index e rq s st now) = Success_html x"
    and "form rq ''parola'' = Some p" and "form rq ''frase_indizio'' = Some f"
    and "request_method rq' = POST" and "form rq' ''access_password'' = None"
    and "form_access s'"
    and "form rq' ''parola'' = Some p" and "form rq' ''frase_indizio'' = Some f"
    and "ContributionForm_errors (form rq') = []"
  shows "(\<exists>row. submissions (db (index e rq s st now)) = submissions st @ [row]) \<and>
         index e rq' s' (db (index e rq s st now)) now' =
           \<lparr>resp = Index_html, flashed = [(already_registered, ''error'')], sess = s',
             db = db (index e rq s st now)\<rparr> \<and>
         (\<forall>w c. (select_by_parola_frase (db (index e rq s st now)) (lower w) c \<noteq> None) =
            (select_by_parola_frase st (lower w) c \<noteq> None \<or>
             lower w = lower (sanitize_input e p) \<and> c = sanitize_input e f))"
proof -
  let ?word = "sanitize_input e p" and ?clue = "sanitize_input e f"
  from index_Success [OF assms(1)] assms(2,3) obtain n
    where first: "index e rq s st now = store_contribution e p f n s st now"
    by auto
  with assms(1) have "resp (store_contribution e p f n s st now) = Success_html x"
    by simp
  from store_contribution_Success [OF this]
  have ok: "is_valid_word ?word" "is_valid_clue ?clue"
    "select_by_parola_frase st (lower ?word) ?clue = None" "top_rowid st < max_rowid"
    by simp_all
  let ?row = "\<lparr>row_id = top_rowid st + 1, parola = lower ?word, frase_indizio = ?clue,
    nome = Some (sanitize_input e n), timestamp = now\<rparr>"
  have rows: "submissions (db (index e rq s st now)) = submissions st @ [?row]"
    by (simp add: first store_contribution_accepted [OF ok])
  have keys: "guard_key ` set (submissions (db (index e rq s st now))) =
      insert (lower ?word, ?clue) (guard_key ` set (submissions st))"
    by (simp add: rows guard_key_def)
  from ContributionForm_errors_data [OF assms(9)] obtain n'
    where "form rq' ''nome'' = Some n'"
    by blast
  with assms(4-9)
  have "index e rq' s' (db (index e rq s st now)) now' =
      store_contribution e p f n' s' (db (index e rq s st now)) now'"
    by (simp add: index_contribution)
  moreover
  have "select_by_parola_frase (db (index e rq s st now)) (lower ?word) ?clue \<noteq> None"
    by (simp add: select_by_parola_frase_None keys)
  ultimately have second: "index e rq' s' (db (index e rq s st now)) now' =
      \<lparr>resp = Index_html, flashed = [(already_registered, ''error'')], sess = s',
        db = db (index e rq s st now)\<rparr>"
    using ok(1,2) by (simp add: store_contribution_duplicate)
  have "(select_by_parola_frase (db (index e rq s st now)) (lower w) c \<noteq> None) =
      (select_by_parola_frase st (lower w) c \<noteq> None \<or> lower w = lower ?word \<and> c = ?clue)"
    for w c
    by (auto simp: select_by_parola_frase_None keys)
  with rows second show ?thesis
    by blast
qed

theorem duplicate_rejected_witness:
  "resp (index plain_env (post gioia_fields) contributor init_db 7) =
     Success_html (asc ''Mario Rossi'') \<and>
   index plain_env (post gioia_fields) contributor gioia_store 9 =
     \<lparr>resp = Index_html, flashed = [(already_registered, ''error'')], sess = contributor,
       db = gioia_store\<rparr>"
proof -
  have accepted: "resp (index plain_env (post gioia_fields) contributor init_db 7) =
      Success_html (asc ''Mario Rossi'')"
    by (simp add: gioia_accepted)
  have gate: "form_access contributor"
    by (simp add: contributor_def)
  have left: "db (index plain_env (post gioia_fields) contributor init_db 7) = gioia_store"
    by (simp add: gioia_accepted)
  from duplicate_rejected [OF accepted gioia_form(3,4) gioia_form(1,2) gate gioia_form(3,4)
      gioia_form_valid, of 9]
  show ?thesis
    unfolding left using accepted by simp
qed

section \<open>The invariant of the table\<close>

lemma unique_keys_append:
  assumes "unique_keys st" and "select_by_parola_frase st w c = None"
  shows "unique_keys \<lparr>submissions = submissions st @
      [\<lparr>row_id = i, parola = w, frase_indizio = c, nome = name, timestamp = t\<rparr>],
    sequence = q\<rparr>"
  using assms by (simp add: unique_keys_def select_by_parola_frase_None) (simp add: guard_key_def)

lemma stored_lowercase_append:
  assumes "stored_lowercase st"
  shows "stored_lowercase \<lparr>submissions = submissions st @
      [\<lparr>row_id = i, parola = lower w, frase_indizio = c, nome = name, timestamp = t\<rparr>],
    sequence = q\<rparr>"
  using assms by (simp add: stored_lowercase_def lower_idem)

lemma step_unique_keys:
  assumes "unique_keys st"
  shows "unique_keys (step e op st)"
proof (cases op)
  case (Post_index rq s now)
  with index_db [of e rq s st now] assms show ?thesis
    by (auto simp: unique_keys_append)
next
  case (Post_delete s i)
  with delete_submission_db [of s i st] assms show ?thesis
    by (auto simp: unique_keys_delete)
qed

lemma step_stored_lowercase:
  assumes "stored_lowercase st"
  shows "stored_lowercase (step e op st)"
proof (cases op)
  case (Post_index rq s now)
  with index_db [of e rq s st now] assms show ?thesis
    by (auto simp: stored_lowercase_append)
next
  case (Post_delete s i)
  with delete_submission_db [of s i st] assms show ?thesis
    by (auto simp: stored_lowercase_delete)
qed

lemma fold_step_invariant:
  assumes "unique_keys st" and "stored_lowercase st"
  shows "unique_keys (fold (step e) ops st) \<and> stored_lowercase (fold (step e) ops st)"
  using assms
proof (induction ops arbitrary: st)
  case Nil
  then show ?case by simp
next
  case (Cons op ops)
  from Cons.prems have "unique_keys (step e op st)" and "stored_lowercase (step e op st)"
    by (simp_all add: step_unique_keys step_stored_lowercase)
  then show ?case
    using Cons.IH by simp
qed

text \<open>
  C3. Every table reached from the empty one by any sequence of the public operations
  (submissions and deletions, by any clients, gated or not) holds no two rows with the
  same stored word and clue; every stored word is its own lowercase form, so neither do
  two rows agree on lowercased word and clue. Either operation, applied to any table
  whose rows differ pairwise in (word, clue), leaves such a table.
\<close>

theorem no_duplicate_pairs:
  "unique_keys (run e ops) \<and>
   stored_lowercase (run e ops) \<and>
   distinct (map (\<lambda>r. (lower (parola r), frase_indizio r)) (submissions (run e ops))) \<and>
   (unique_keys st \<longrightarrow> unique_keys (step e op st))"
proof -
  have "unique_keys init_db" and "stored_lowercase init_db"
    by (simp_all add: unique_keys_def stored_lowercase_def init_db_def)
  then have inv: "unique_keys (run e ops)" "stored_lowercase (run e ops)"
    unfolding run_def using fold_step_invariant by blast+
  from inv(2) have same: "map (\<lambda>r. (lower (parola r), frase_indizio r)) (submissions (run e ops)) =
      map guard_key (submissions (run e ops))"
    by (intro map_cong) (auto simp: stored_lowercase_def list_all_iff guard_key_def)
  have lowered:
    "distinct (map (\<lambda>r. (lower (parola r), frase_indizio r)) (submissions (run e ops)))"
    unfolding same using inv(1) by (simp add: unique_keys_def)
  have "unique_keys st \<longrightarrow> unique_keys (step e op st)"
    by (simp add: step_unique_keys)
  with inv lowered show ?thesis
    by blast
qed

theorem no_duplicate_pairs_witness:
  "unique_keys init_db \<and>
   step plain_env (Post_index (post gioia_fields) contributor 7) init_db = gioia_store \<and>
   unique_keys gioia_store \<and>
   run plain_env [Post_index (post gioia_fields) contributor 7,
     Post_index (post gioia_fields) contributor 9] = gioia_store"
proof -
  have start: "unique_keys init_db"
    by (simp add: unique_keys_def init_db_def)
  have one: "step plain_env (Post_index (post gioia_fields) contributor 7) init_db = gioia_store"
    by (simp add: gioia_accepted)
  have two: "step plain_env (Post_index (post gioia_fields) contributor 9) gioia_store =
      gioia_store"
    by (simp add: gioia_repeated)
  from no_duplicate_pairs [of plain_env "[]" init_db "Post_index (post gioia_fields) contributor 7"]
    start
  have "unique_keys (step plain_env (Post_index (post gioia_fields) contributor 7) init_db)"
    by blast
  with start one two show ?thesis
    by (simp add: run_def)
qed

section \<open>The admin gate\<close>

text \<open>
  C7. Without the admin gate, \<open>export_csv\<close> and \<open>delete_submission\<close> answer with
  \<open>abort(403)\<close>: a client-error status and not a redirect, with nothing flashed and the
  store as it was, whatever the id.
\<close>

theorem refused_without_admin_gate:
  assumes "\<not> admin_logged_in s"
  shows "resp (export_csv s st) = Abort 403 \<and>
         resp (delete_submission s i st) = Abort 403 \<and>
         status_code (resp (export_csv s st)) = 403 \<and>
         status_code (resp (delete_submission s i st)) = 403 \<and>
         \<not> is_redirect (resp (export_csv s st)) \<and>
         \<not> is_redirect (resp (delete_submission s i st)) \<and>
         db (export_csv s st) = st \<and> db (delete_submission s i st) = st \<and>
         flashed (export_csv s st) = [] \<and> flashed (delete_submission s i st) = []"
  using assms by (simp add: export_csv_def delete_submission_def)

theorem refused_without_admin_gate_witness:
  "\<not> admin_logged_in visitor \<and>
   resp (export_csv visitor init_db) = Abort 403 \<and>
   resp (delete_submission visitor 1 init_db) = Abort 403 \<and>
   (400::nat) \<le> 403 \<and> (403::nat) < 500"
proof -
  have g: "\<not> admin_logged_in visitor"
    by (simp add: visitor_def)
  from refused_without_admin_gate [OF g, of init_db 1] g show ?thesis
    by simp
qed

section \<open>Deleting a row\<close>

lemma find_row_id_None:
  "find (\<lambda>r. row_id r = i) rs = None \<longleftrightarrow> i \<notin> row_id ` set rs"
  by (auto simp: find_None_iff)

lemma length_filter_row_id:
  assumes "distinct (map row_id rs)" and "i \<in> row_id ` set rs"
  shows "length (filter (\<lambda>r. row_id r \<noteq> i) rs) + 1 = length rs"
  using assms
proof (induction rs)
  case Nil
  then show ?case by simp
next
  case (Cons r rs)
  show ?case
  proof (cases "row_id r = i")
    case True
    with Cons.prems have "i \<notin> row_id ` set rs"
      by simp
    then have "\<forall>x\<in>set rs. row_id x \<noteq> i"
      by force
    then have "filter (\<lambda>r. row_id r \<noteq> i) rs = rs"
      by (simp add: filter_id_conv)
    with True show ?thesis by simp
  next
    case False
    with Cons show ?thesis by auto
  qed
qed

lemma delete_try_cases:
  assumes "0 < i"
  shows "delete_try i st =
     (if max_rowid < i then Inl OverflowError
      else if i \<in> row_id ` set (submissions st)
        then Inr ((deleted, ''success''), delete_by_id st i)
      else Inr ((not_found, ''error''), st))"
proof -
  from assms have fit: "fits_sqlite_integer i \<longleftrightarrow> \<not> max_rowid < i"
    by (auto simp: fits_sqlite_integer_def max_rowid_def)
  have mem: "i \<in> row_id ` set (submissions st) \<longleftrightarrow>
      find (\<lambda>r. row_id r = i) (submissions st) \<noteq> None"
    by (simp add: find_row_id_None)
  show ?thesis
    unfolding mem using assms fit
    by (cases "find (\<lambda>r. row_id r = i) (submissions st)")
      (simp_all add: delete_try_def select_by_id_def)
qed

text \<open>
  C8 (as amended). With the admin gate and a positive id, \<open>delete_submission\<close> always
  redirects to the dashboard. An id of the table is deleted: the rows with any other id
  stay as they are and in their order, the flash is "Contributo eliminato", and under
  the primary key (no two rows with one id) exactly one row goes. A positive id that fits
  the 64-bit key and is not in the table leaves the store as it is, with the flash
  "Contributo non trovato". An id beyond the 64-bit key leaves the store as it is too, but
  its flash is the generic "Errore durante l'eliminazione".
\<close>

theorem delete_by_admin:
  assumes "admin_logged_in s" and "0 < i"
  shows "(i \<le> max_rowid \<and> i \<in> row_id ` set (submissions st) \<longrightarrow>
            submissions (db (delete_submission s i st)) =
              filter (\<lambda>r. row_id r \<noteq> i) (submissions st) \<and>
            sequence (db (delete_submission s i st)) = sequence st \<and>
            resp (delete_submission s i st) = Redirect Admin \<and>
            flashed (delete_submission s i st) = [(deleted, ''success'')] \<and>
            (distinct (map row_id (submissions st)) \<longrightarrow>
               length (submissions (db (delete_submission s i st))) + 1 =
                 length (submissions st))) \<and>
         (i \<le> max_rowid \<and> i \<notin> row_id ` set (submissions st) \<longrightarrow>
            db (delete_submission s i st) = st \<and>
            resp (delete_submission s i st) = Redirect Admin \<and>
            flashed (delete_submission s i st) = [(not_found, ''error'')]) \<and>
         (max_rowid < i \<longrightarrow>
            db (delete_submission s i st) = st \<and>
            resp (delete_submission s i st) = Redirect Admin \<and>
            flashed (delete_submission s i st) = [(delete_failed, ''error'')])"
proof (intro conjI impI)
  assume present: "i \<le> max_rowid \<and> i \<in> row_id ` set (submissions st)"
  with assms have out: "delete_submission s i st =
      \<lparr>resp = Redirect Admin, flashed = [(deleted, ''success'')], sess = s,
        db = delete_by_id st i\<rparr>"
    by (simp add: delete_submission_def delete_try_cases)
  show "submissions (db (delete_submission s i st)) =
      filter (\<lambda>r. row_id r \<noteq> i) (submissions st)"
    and "sequence (db (delete_submission s i st)) = sequence st"
    and "resp (delete_submission s i st) = Redirect Admin"
    and "flashed (delete_submission s i st) = [(deleted, ''success'')]"
    by (simp_all add: out delete_by_id_def)
  {
    assume "distinct (map row_id (submissions st))"
    with present
    have "length (filter (\<lambda>r. row_id r \<noteq> i) (submissions st)) + 1 = length (submissions st)"
      by (intro length_filter_row_id) simp_all
    then
    show "length (submissions (db (delete_submission s i st))) + 1 = length (submissions st)"
      by (simp add: out delete_by_id_def)
  }
next
  assume "i \<le> max_rowid \<and> i \<notin> row_id ` set (submissions st)"
  with assms have "delete_submission s i st =
      \<lparr>resp = Redirect Admin, flashed = [(not_found, ''error'')], sess = s, db = st\<rparr>"
    by (simp add: delete_submission_def delete_try_cases)
  then show "db (delete_submission s i st) = st"
    and "resp (delete_submission s i st) = Redirect Admin"
    and "flashed (delete_submission s i st) = [(not_found, ''error'')]"
    by simp_all
next
  assume "max_rowid < i"
  with assms have "delete_submission s i st =
      \<lparr>resp = Redirect Admin, flashed = [(delete_failed, ''error'')], sess = s, db = st\<rparr>"
    by (simp add: delete_submission_def delete_try_cases)
  then show "db (delete_submission s i st) = st"
    and "resp (delete_submission s i st) = Redirect Admin"
    and "flashed (delete_submission s i st) = [(delete_failed, ''error'')]"
    by simp_all
qed

theorem delete_by_admin_witness:
  "submissions (db (delete_submission administrator 1 gioia_store)) = [] \<and>
   length (submissions (db (delete_submission administrator 1 gioia_store))) + 1 =
     length (submissions gioia_store) \<and>
   flashed (delete_submission administrator 1 gioia_store) = [(deleted, ''success'')] \<and>
   db (delete_submission administrator 2 gioia_store) = gioia_store \<and>
   flashed (delete_submission administrator 2 gioia_store) = [(not_found, ''error'')] \<and>
   flashed (delete_submission administrator (max_rowid + 1) gioia_store) =
     [(delete_failed, ''error'')]"
proof -
  have gate: "admin_logged_in administrator"
    by (simp add: administrator_def)
  have ids: "row_id ` set (submissions gioia_store) = {1}"
    "distinct (map row_id (submissions gioia_store))"
    "filter (\<lambda>r. row_id r \<noteq> 1) (submissions gioia_store) = []"
    "length (submissions gioia_store) = 1"
    by (simp_all add: gioia_store_def gioia_row_def)
  have range: "(1::int) \<le> max_rowid" "(2::int) \<le> max_rowid" "max_rowid < max_rowid + 1"
    "0 < max_rowid + 1"
    by (simp_all add: max_rowid_def)
  from delete_by_admin [OF gate, of 1 gioia_store] ids range
  have one: "submissions (db (delete_submission administrator 1 gioia_store)) = []"
    "length (submissions (db (delete_submission administrator 1 gioia_store))) + 1 =
     length (submissions gioia_store)"
    "flashed (delete_submission administrator 1 gioia_store) = [(deleted, ''success'')]"
    by simp_all
  from delete_by_admin [OF gate, of 2 gioia_store] ids range
  have two: "db (delete_submission administrator 2 gioia_store) = gioia_store"
    "flashed (delete_submission administrator 2 gioia_store) = [(not_found, ''error'')]"
    by simp_all
  from delete_by_admin [OF gate range(4), of gioia_store] range
  have three: "flashed (delete_submission administrator (max_rowid + 1) gioia_store) =
     [(delete_failed, ''error'')]"
    by simp
  from one two three show ?thesis
    by simp
qed

text \<open>
  As the specification states it, for every positive id that is not in the table, the
  "not found" report fails: 2^63 is positive and in no table, and the flash for it is the
  generic failure message.
\<close>

theorem delete_by_admin_counterexample:
  "(0::int) < 9223372036854775808 \<and>
   9223372036854775808 \<notin> row_id ` set (submissions init_db) \<and>
   flashed (delete_submission administrator 9223372036854775808 init_db) =
     [(delete_failed, ''error'')] \<and>
   delete_failed \<noteq> not_found"
  by (simp add: delete_submission_def delete_try_def select_by_id_def fits_sqlite_integer_def
      max_rowid_def administrator_def init_db_def delete_failed_def not_found_def asc_def)

section \<open>The name field and the export\<close>

lemma nameless_form:
  "request_method (post nameless_fields) = POST"
  "form (post nameless_fields) ''access_password'' = None"
  "form (post nameless_fields) ''parola'' = Some (asc ''GIOIA'')"
  "form (post nameless_fields) ''frase_indizio'' = Some (asc ''Sentimento che trasmette sempre gioia'')"
  "form (post nameless_fields) ''nome'' = Some []"
  by (simp_all add: post_def nameless_fields_def)

lemma nameless_errors: "ContributionForm_errors (form (post nameless_fields)) = [nome_required]"
  by (simp add: ContributionForm_errors_def field_errors_def nameless_form gioia_strip)
    (simp add: asc_def)

lemma name_required:
  assumes "request_method rq = POST" and "form rq ''access_password'' = None"
    and "form_access s" and "\<not> data_required (form rq ''nome'')"
  shows "db (index e rq s st now) = st \<and> resp (index e rq s st now) = Index_html \<and>
         (nome_required, ''error'') \<in> set (flashed (index e rq s st now))"
proof -
  from assms(4) have "nome_required \<in> set (ContributionForm_errors (form rq))"
    by (simp add: ContributionForm_errors_def field_errors_def)
  moreover from this have "ContributionForm_errors (form rq) \<noteq> []"
    by auto
  ultimately show ?thesis
    using assms(1-3) by (simp add: index_invalid_form)
qed

text \<open>
  C9 (as amended). The name is required when a contribution is submitted: a POST whose
  \<open>nome\<close> field is missing, empty or blank is turned away with "Il nome \<dots> obbligatorio",
  whatever its word and clue, and nothing is stored. The column itself may be \<open>NULL\<close> or
  empty, and the export, which has one line for each row after the header, writes
  "Anonimo" in the third column for such a row and the name itself for any other.
\<close>

theorem name_required_export_placeholder:
  "(request_method rq = POST \<and> form rq ''access_password'' = None \<and> form_access s \<and>
      \<not> data_required (form rq ''nome'') \<longrightarrow>
      db (index e rq s st now) = st \<and> resp (index e rq s st now) = Index_html \<and>
      (nome_required, ''error'') \<in> set (flashed (index e rq s st now))) \<and>
   (admin_logged_in s' \<longrightarrow>
      (\<exists>lines. resp (export_csv s' st) = Csv (csv_header # lines) \<and>
         set lines = csv_line ` set (submissions st) \<and>
         length lines = length (submissions st))) \<and>
   (nome r = None \<or> nome r = Some [] \<longrightarrow>
      csv_line r = [Text (parola r), Text (frase_indizio r), Text anonimo, Stamp (timestamp r)]) \<and>
   (nome r = Some n \<and> n \<noteq> [] \<longrightarrow>
      csv_line r = [Text (parola r), Text (frase_indizio r), Text n, Stamp (timestamp r)])"
proof (intro conjI impI)
  assume "request_method rq = POST \<and> form rq ''access_password'' = None \<and> form_access s \<and>
      \<not> data_required (form rq ''nome'')"
  then show "db (index e rq s st now) = st" and "resp (index e rq s st now) = Index_html"
    and "(nome_required, ''error'') \<in> set (flashed (index e rq s st now))"
    using name_required [of rq s e st now] by simp_all
next
  assume "admin_logged_in s'"
  then have "resp (export_csv s' st) =
      Csv (csv_header # map csv_line (newest_first (submissions st)))"
    by (simp add: export_csv_def)
  moreover have "set (map csv_line (newest_first (submissions st))) =
      csv_line ` set (submissions st)"
    by (simp add: set_newest_first)
  moreover have "length (map csv_line (newest_first (submissions st))) =
      length (submissions st)"
    by (simp add: length_newest_first)
  ultimately show "\<exists>lines. resp (export_csv s' st) = Csv (csv_header # lines) \<and>
         set lines = csv_line ` set (submissions st) \<and>
         length lines = length (submissions st)"
    by blast
next
  assume "nome r = None \<or> nome r = Some []"
  then show "csv_line r =
      [Text (parola r), Text (frase_indizio r), Text anonimo, Stamp (timestamp r)]"
    by (auto simp: csv_line_def)
next
  assume "nome r = Some n \<and> n \<noteq> []"
  then show "csv_line r = [Text (parola r), Text (frase_indizio r), Text n, Stamp (timestamp r)]"
    by (simp add: csv_line_def)
qed

theorem name_required_export_placeholder_witness:
  "db (index plain_env (post nameless_fields) contributor init_db 7) = init_db \<and>
   resp (index plain_env (post nameless_fields) contributor init_db 7) = Index_html \<and>
   csv_line nameless_row =
     [Text (asc ''gioia''), Text (asc ''Sentimento che trasmette sempre gioia''),
      Text (asc ''Anonimo''), Stamp 7] \<and>
   csv_line gioia_row =
     [Text (asc ''gioia''), Text (asc ''Sentimento che trasmette sempre gioia''),
      Text (asc ''Mario Rossi''), Stamp 7] \<and>
   resp (export_csv administrator nameless_store) = Csv [csv_header, csv_line nameless_row]"
proof -
  have gate: "form_access contributor" "admin_logged_in administrator"
    by (simp_all add: contributor_def administrator_def)
  have blank: "\<not> data_required (form (post nameless_fields) ''nome'')"
    by (simp add: nameless_form)
  have names: "nome nameless_row = None" "nome gioia_row = Some (asc ''Mario Rossi'')"
    "asc ''Mario Rossi'' \<noteq> []"
    by (simp_all add: nameless_row_def gioia_row_def gioia_nonempty)
  have rows: "submissions nameless_store = [nameless_row]"
    by (simp add: nameless_store_def)
  note claim = name_required_export_placeholder
  from claim [of "post nameless_fields" contributor plain_env init_db 7] nameless_form(1,2)
    gate(1) blank
  have a: "db (index plain_env (post nameless_fields) contributor init_db 7) = init_db"
    "resp (index plain_env (post nameless_fields) contributor init_db 7) = Index_html"
    by simp_all
  from claim [where r = nameless_row] names
  have b: "csv_line nameless_row =
     [Text (asc ''gioia''), Text (asc ''Sentimento che trasmette sempre gioia''),
      Text (asc ''Anonimo''), Stamp 7]"
    by (simp add: nameless_row_def anonimo_def)
  from claim [where r = gioia_row and n = "asc ''Mario Rossi''"] names
  have c: "csv_line gioia_row =
     [Text (asc ''gioia''), Text (asc ''Sentimento che trasmette sempre gioia''),
      Text (asc ''Mario Rossi''), Stamp 7]"
    by (simp add: gioia_row_def)
  from claim [where s' = administrator and st = nameless_store] gate(2)
  obtain lines where l: "resp (export_csv administrator nameless_store) = Csv (csv_header # lines)"
    "set lines = csv_line ` set (submissions nameless_store)"
    "length lines = length (submissions nameless_store)"
    by blast
  from l(2,3) have "lines = [csv_line nameless_row]"
    by (cases lines) (auto simp: rows)
  with l(1) a b c show ?thesis
    by simp
qed

text \<open>
  As the specification states it, with an optional name, the property fails: the example
  contribution with an empty name is turned away and the table stays empty.
\<close>

theorem name_optional_counterexample:
  "form_access contributor \<and>
   form (post nameless_fields) ''nome'' = Some [] \<and>
   is_valid_word (sanitize_input plain_env (asc ''GIOIA'')) \<and>
   is_valid_clue (sanitize_input plain_env (asc ''Sentimento che trasmette sempre gioia'')) \<and>
   index plain_env (post nameless_fields) contributor init_db 7 =
     \<lparr>resp = Index_html, flashed = [(nome_required, ''error'')], sess = contributor,
       db = init_db\<rparr>"
proof -
  have gate: "form_access contributor"
    by (simp add: contributor_def)
  have "index plain_env (post nameless_fields) contributor init_db 7 =
     \<lparr>resp = Index_html, flashed = [(nome_required, ''error'')], sess = contributor,
       db = init_db\<rparr>"
    using nameless_form(1,2) gate
    by (subst index_invalid_form) (simp_all add: nameless_errors)
  with gate show ?thesis
    by (simp add: nameless_form gioia_sanitize gioia_word_valid gioia_clue_valid)
qed

section \<open>What a POST to the index view depends on\<close>

lemma password_form:
  "request_method (post gioia_with_password) = POST"
  "form (post gioia_with_password) ''access_password'' = Some (asc ''x'')"
  "form (post gioia_with_password) ''parola'' = form (post gioia_fields) ''parola''"
  "form (post gioia_with_password) ''frase_indizio'' = form (post gioia_fields) ''frase_indizio''"
  "form (post gioia_with_password) ''nome'' = form (post gioia_fields) ''nome''"
  by (simp_all add: post_def gioia_with_password_def gioia_fields_def)

lemma password_x_refused:
  "\<not> password_accepted plain_env (asc ''bianca'') (asc ''x'')"
  "data_required (Some (asc ''x''))"
  by (simp_all add: password_accepted_def sanitize_input_def plain_env_def strip_def asc_def
      isspace_def)

text \<open>
  C10 (as amended). The outcome of \<open>index\<close> (response, flashes, session and store) is a
  function of the method, of the fields \<open>access_password\<close>, \<open>parola\<close>, \<open>frase_indizio\<close>
  and \<open>nome\<close>, of the session, the store and the clock: two requests that agree on the
  method and on these four fields have the same outcome, whatever other fields (a
  \<open>website\<close> honeypot, say) either of them carries.
\<close>

theorem index_depends_on_four_fields:
  assumes "request_method rq1 = request_method rq2"
    and "form rq1 ''access_password'' = form rq2 ''access_password''"
    and "form rq1 ''parola'' = form rq2 ''parola''"
    and "form rq1 ''frase_indizio'' = form rq2 ''frase_indizio''"
    and "form rq1 ''nome'' = form rq2 ''nome''"
  shows "index e rq1 s st now = index e rq2 s st now"
  unfolding index_def ContributionForm_errors_def assms by (rule refl)

theorem index_depends_on_four_fields_witness:
  "index plain_env (post ((''website'', asc ''http://spam.com'') # gioia_fields)) contributor
     init_db 7 =
   \<lparr>resp = Success_html (asc ''Mario Rossi''), flashed = [(thanks, ''success'')],
     sess = contributor, db = gioia_store\<rparr>"
proof -
  let ?rq = "post ((''website'', asc ''http://spam.com'') # gioia_fields)"
  have "request_method ?rq = request_method (post gioia_fields)"
    and "form ?rq ''access_password'' = form (post gioia_fields) ''access_password''"
    and "form ?rq ''parola'' = form (post gioia_fields) ''parola''"
    and "form ?rq ''frase_indizio'' = form (post gioia_fields) ''frase_indizio''"
    and "form ?rq ''nome'' = form (post gioia_fields) ''nome''"
    by (simp_all add: post_def)
  then have "index plain_env ?rq contributor init_db 7 =
      index plain_env (post gioia_fields) contributor init_db 7"
    by (rule index_depends_on_four_fields)
  then show ?thesis
    by (simp add: gioia_accepted)
qed

text \<open>
  As the specification states it, for any extra field, the property fails: the example
  contribution with an added \<open>access_password\<close> field agrees with it on word, clue and
  name, and is answered as a failed login that stores nothing, while the example itself
  is stored.
\<close>

theorem index_extra_field_counterexample:
  "form (post gioia_with_password) ''parola'' = form (post gioia_fields) ''parola'' \<and>
   form (post gioia_with_password) ''frase_indizio'' = form (post gioia_fields) ''frase_indizio'' \<and>
   form (post gioia_with_password) ''nome'' = form (post gioia_fields) ''nome'' \<and>
   index plain_env (post gioia_fields) contributor init_db 7 =
     \<lparr>resp = Success_html (asc ''Mario Rossi''), flashed = [(thanks, ''success'')],
       sess = contributor, db = gioia_store\<rparr> \<and>
   index plain_env (post gioia_with_password) contributor init_db 7 =
     \<lparr>resp = Form_login_html [], flashed = [(form_password_wrong, ''error'')],
       sess = contributor, db = init_db\<rparr> \<and>
   gioia_store \<noteq> init_db"
proof -
  have "index plain_env (post gioia_with_password) contributor init_db 7 =
     \<lparr>resp = Form_login_html [], flashed = [(form_password_wrong, ''error'')],
       sess = contributor, db = init_db\<rparr>"
    unfolding index_login [OF password_form(1,2)] plain_passwords
    using password_x_refused by simp
  moreover have "gioia_store \<noteq> init_db"
    by (simp add: gioia_store_def init_db_def)
  ultimately show ?thesis
    by (simp add: password_form gioia_accepted)
qed


end
